theory Spec2Isabelle
  imports Complex_Main
begin

section \<open>Exceptions, messages and the agent state\<close>

text \<open>
  Python exceptions that the modelled code can meet: the \<open>IndexError\<close> of
  \<open>state["messages"][-1]\<close> on an empty list, an exception derived from
  \<open>Exception\<close> that an external backend raises, and one that is not derived from
  \<open>Exception\<close> (\<open>KeyboardInterrupt\<close>, \<open>SystemExit\<close>); the last two carry the
  text that \<open>str(e)\<close> gives.
\<close>

datatype exn = IndexError | Raised string | RaisedBase string

fun str_exn :: "exn \<Rightarrow> string" where
  "str_exn IndexError = ''list index out of range''"
| "str_exn (Raised m) = m"
| "str_exn (RaisedBase m) = m"

text \<open>Whether a clause \<open>except Exception\<close> catches the exception.\<close>

fun is_Exception :: "exn \<Rightarrow> bool" where
  "is_Exception IndexError = True"
| "is_Exception (Raised m) = True"
| "is_Exception (RaisedBase m) = False"

text \<open>
  A chat message: \<open>msg_type\<close> is the attribute \<open>type\<close> of the message object
  (\<open>None\<close> when the object has no such attribute, the case \<open>hasattr(msg, 'type')\<close>
  tests), \<open>content\<close> its text.
\<close>

record message =
  msg_type :: "string option"
  content :: string

text \<open>
  The state dictionary threaded through the graph. Every key but \<open>messages\<close> may be
  absent, which is what \<open>state.get\<close> is written for. The key \<open>context\<close> is the
  field \<open>rag_context\<close>.
\<close>

record AgentState =
  messages :: "message list"
  session_id :: "string option"
  use_rag :: "bool option"
  system_prompt :: "string option"
  rag_context :: "string option"

text \<open>A node returns a dictionary holding the keys it updates.\<close>

datatype 'c update = NoUpdate | ContextUpdate 'c | MessagesUpdate "message list"

text \<open>The two module-level chat model clients of \<open>nodes.py\<close> and their temperatures.\<close>

datatype llm_client = llm_gemini | llm_gemini_rag

fun temperature :: "llm_client \<Rightarrow> rat" where
  "temperature llm_gemini = 0"
| "temperature llm_gemini_rag = 7 / 10"

fun convert_system_message_to_human :: "llm_client \<Rightarrow> bool" where
  "convert_system_message_to_human llm_gemini = False"
| "convert_system_message_to_human llm_gemini_rag = True"

text \<open>
  What a client is invoked with: message objects of the state, or \<open>(role, content)\<close>
  tuples built by a node.
\<close>

datatype llm_input = MsgObj message | RolePair string string

text \<open>A retrieved document, and the calls to external backends that a node makes.\<close>

record document =
  page_content :: string

datatype event =
    GetRetriever string
  | RetrieverInvoke string string
  | LlmInvoke llm_client "llm_input list"
  | SearchInvoke string

type_synonym retriever = "string \<Rightarrow> exn + document list"
type_synonym vector_store = "string \<Rightarrow> exn + retriever"
type_synonym llm_backend = "llm_client \<Rightarrow> llm_input list \<Rightarrow> exn + message"

text \<open>\<open>state["messages"][-1]\<close>: the last message, or \<open>IndexError\<close>.\<close>

definition last_message :: "AgentState \<Rightarrow> exn + message" where
  "last_message state =
     (case messages state of [] \<Rightarrow> Inl IndexError | _ # _ \<Rightarrow> Inr (last (messages state)))"

section \<open>Strings\<close>

text \<open>\<open>str.lower\<close> on ASCII text, and the substring test \<open>sub in s\<close>.\<close>

definition lower_char :: "char \<Rightarrow> char" where
  "lower_char c =
     (if (65::nat) \<le> of_char c \<and> of_char c \<le> (90::nat)
      then char_of (of_char c + (32::nat)) else c)"

definition lower :: "string \<Rightarrow> string" where
  "lower s = map lower_char s"

fun startswith :: "string \<Rightarrow> string \<Rightarrow> bool" where
  "startswith s [] = True"
| "startswith [] (p # ps) = False"
| "startswith (c # cs) (p # ps) = (c = p \<and> startswith cs ps)"

fun contains :: "string \<Rightarrow> string \<Rightarrow> bool" where
  "contains [] sub = (sub = [])"
| "contains (c # cs) sub = (startswith (c # cs) sub \<or> contains cs sub)"

text \<open>\<open>sep.join(xs)\<close>.\<close>

fun join :: "string \<Rightarrow> string list \<Rightarrow> string" where
  "join sep [] = []"
| "join sep [x] = x"
| "join sep (x # y # ys) = x @ sep @ join sep (y # ys)"

section \<open>The nodes of \<open>nodes.py\<close>\<close>

definition route_to_llm :: "AgentState \<Rightarrow> exn + string" where
  "route_to_llm state =
     (case last_message state of
        Inl e \<Rightarrow> Inl e
      | Inr m \<Rightarrow>
          (let lastmessage = content m in
           if contains (lower lastmessage) ''creative'' \<or> contains (lower lastmessage) ''write''
           then Inr ''gemini''
           else if contains (lower lastmessage) ''code'' \<or> contains (lower lastmessage) ''python''
           then Inr ''groq''
           else Inr ''ginini''))"

definition check_for_rag :: "AgentState \<Rightarrow> string" where
  "check_for_rag state =
     (if (case use_rag state of None \<Rightarrow> False | Some b \<Rightarrow> b)
      then ''rag_retrieval'' else ''generate_direct'')"

definition no_session_text :: string where
  "no_session_text = ''Error: No session ID provided for document retrieval.''"

definition retrieve_from_rag ::
  "vector_store \<Rightarrow> AgentState \<Rightarrow> event list \<times> (exn + string update)" where
  "retrieve_from_rag get_retriever state =
     (case last_message state of
        Inl e \<Rightarrow> ([], Inl e)
      | Inr m \<Rightarrow>
          (let user_query = content m in
           case session_id state of
             None \<Rightarrow> ([], Inr (ContextUpdate no_session_text))
           | Some sid \<Rightarrow>
               if sid = [] then ([], Inr (ContextUpdate no_session_text))
               else
                 (case get_retriever sid of
                    Inl e \<Rightarrow> ([GetRetriever sid], Inl e)
                  | Inr retriever \<Rightarrow>
                      (case retriever user_query of
                         Inl e \<Rightarrow> ([GetRetriever sid, RetrieverInvoke sid user_query], Inl e)
                       | Inr retrieved_docs \<Rightarrow>
                           ([GetRetriever sid, RetrieverInvoke sid user_query],
                            Inr (ContextUpdate
                                   (join ''\<newline>\<newline>'' (map page_content retrieved_docs))))))))"

text \<open>
  \<open>get_web_search_tool\<close> of \<open>web_search.py\<close>: no tool when the search credential
  is absent or empty; otherwise the tool is constructed, which may raise.
\<close>

definition get_web_search_tool :: "string option \<Rightarrow> exn + 't \<Rightarrow> exn + 't option" where
  "get_web_search_tool tavily_api_key construct_tool =
     (case tavily_api_key of
        None \<Rightarrow> Inr None
      | Some k \<Rightarrow>
          if k = [] then Inr None
          else (case construct_tool of Inl e \<Rightarrow> Inl e | Inr tool \<Rightarrow> Inr (Some tool)))"

text \<open>
  What \<open>run_web_search\<close> stores under \<open>context\<close>: a text of its own, or the object
  that the search tool returned.
\<close>

datatype 'r search_context = ContextText string | ToolResult 'r

definition search_unavailable_text :: string where
  "search_unavailable_text =
     ''Web search is not available. Please provide a TAVILY_API_KEY in your environment variables.''"

text \<open>
  The call of \<open>get_web_search_tool\<close> stands before the \<open>try\<close>; reading the last
  message and invoking the tool stand inside it, under \<open>except Exception\<close>.
\<close>

definition run_web_search ::
  "string option \<Rightarrow> exn + (string \<Rightarrow> exn + 'r) \<Rightarrow> AgentState
     \<Rightarrow> event list \<times> (exn + 'r search_context update)" where
  "run_web_search tavily_api_key construct_tool state =
     (case get_web_search_tool tavily_api_key construct_tool of
        Inl e \<Rightarrow> ([], Inl e)
      | Inr None \<Rightarrow> ([], Inr (ContextUpdate (ContextText search_unavailable_text)))
      | Inr (Some search_tool) \<Rightarrow>
          (case last_message state of
             Inl e \<Rightarrow>
               if is_Exception e
               then ([], Inr (ContextUpdate (ContextText (''Web search failed: '' @ str_exn e))))
               else ([], Inl e)
           | Inr m \<Rightarrow>
               (case search_tool (content m) of
                  Inr search_results \<Rightarrow>
                    ([SearchInvoke (content m)], Inr (ContextUpdate (ToolResult search_results)))
                | Inl e \<Rightarrow>
                    if is_Exception e
                    then ([SearchInvoke (content m)],
                          Inr (ContextUpdate (ContextText (''Web search failed: '' @ str_exn e))))
                    else ([SearchInvoke (content m)], Inl e))))"

text \<open>The f-string of \<open>generate_with_context\<close>, line by line.\<close>

definition default_system_prompt :: string where
  "default_system_prompt = ''You are a helpful AI assistant.''"

definition prompt_instructions :: string where
  "prompt_instructions =
     ''\<newline>\<newline>''
     @ ''    Use the following document snippets as your primary source of knowledge to answer the user's question. The snippets are from a document the user just uploaded.\<newline>''
     @ ''\<newline>''
     @ ''    If the user's question is general, like '' @ [CHR 0x22] @ ''what is this document about?'' @ [CHR 0x22]
     @ '' or '' @ [CHR 0x22] @ ''summarize this file'' @ [CHR 0x22]
     @ '', provide a concise summary of the provided context.\<newline>''
     @ ''\<newline>''
     @ ''    If the user asks a specific question, answer it directly using only the information in the snippets.\<newline>''
     @ ''\<newline>''
     @ ''    If the snippets do not contain the answer to a specific question, state that the provided document doesn't seem to contain that information.\<newline>''
     @ ''\<newline>''"

definition rag_prompt :: "string \<Rightarrow> string \<Rightarrow> string \<Rightarrow> string" where
  "rag_prompt user_system_prompt context_text user_query =
     user_system_prompt
     @ prompt_instructions
     @ ''    DOCUMENT SNIPPETS:\<newline>''
     @ ''    ---\<newline>''
     @ ''    '' @ context_text @ ''\<newline>''
     @ ''    ---\<newline>''
     @ ''\<newline>''
     @ ''    USER'S QUESTION:\<newline>''
     @ ''    '' @ [CHR 0x22] @ user_query @ [CHR 0x22] @ ''\<newline>''
     @ ''    ''"

definition generate_with_context ::
  "llm_backend \<Rightarrow> AgentState \<Rightarrow> event list \<times> (exn + string update)" where
  "generate_with_context invoke state =
     (case last_message state of
        Inl e \<Rightarrow> ([], Inl e)
      | Inr m \<Rightarrow>
          (let user_query = content m;
               context_text = (case rag_context state of None \<Rightarrow> [] | Some c \<Rightarrow> c);
               user_system_prompt =
                 (case system_prompt state of None \<Rightarrow> default_system_prompt | Some p \<Rightarrow> p);
               prompt = rag_prompt user_system_prompt context_text user_query;
               messages_for_llm =
                 map MsgObj (butlast (messages state)) @ [RolePair ''user'' prompt]
           in case invoke llm_gemini messages_for_llm of
                Inl e \<Rightarrow> ([LlmInvoke llm_gemini messages_for_llm], Inl e)
              | Inr response \<Rightarrow>
                  ([LlmInvoke llm_gemini messages_for_llm], Inr (MessagesUpdate [response]))))"

text \<open>The list comprehension of \<open>generate_direct\<close>, message by message.\<close>

fun role_pairs :: "message list \<Rightarrow> llm_input list" where
  "role_pairs [] = []"
| "role_pairs (msg # rest) =
     RolePair (case msg_type msg of Some t \<Rightarrow> t | None \<Rightarrow> ''user'') (content msg)
       # role_pairs rest"

definition generate_direct ::
  "llm_backend \<Rightarrow> AgentState \<Rightarrow> event list \<times> (exn + string update)" where
  "generate_direct invoke state =
     (let user_system_prompt =
            (case system_prompt state of None \<Rightarrow> default_system_prompt | Some p \<Rightarrow> p);
          messages_for_llm = [RolePair ''system'' user_system_prompt] @ role_pairs (messages state)
      in case invoke llm_gemini messages_for_llm of
           Inl e \<Rightarrow> ([LlmInvoke llm_gemini messages_for_llm], Inl e)
         | Inr response \<Rightarrow>
             ([LlmInvoke llm_gemini messages_for_llm], Inr (MessagesUpdate [response])))"

definition agent_entry :: "AgentState \<Rightarrow> string update" where
  "agent_entry state = NoUpdate"

section \<open>The request state and the graph\<close>

text \<open>The request body of \<open>chat.py\<close> and the graph input that the endpoint builds from it.\<close>

record ChatRequest =
  cr_session_id :: string
  cr_message :: string
  cr_use_rag :: bool
  cr_system_prompt :: string

definition HumanMessage :: "string \<Rightarrow> message" where
  "HumanMessage text = \<lparr>msg_type = Some ''human'', content = text\<rparr>"

definition chat_inputs :: "ChatRequest \<Rightarrow> AgentState" where
  "chat_inputs request =
     \<lparr>messages = [HumanMessage (cr_message request)],
      session_id = Some (cr_session_id request),
      use_rag = Some (cr_use_rag request),
      system_prompt = Some (cr_system_prompt request),
      rag_context = None\<rparr>"

text \<open>
  Modelled from the spec: the state declaration \<open>app/agent/state.py\<close> is not among the
  sources. By the data model of the spec, \<open>messages\<close> is append-only (a node's messages
  are added at the end) and \<open>context\<close> is set by the node that returns it.
\<close>

definition apply_update :: "AgentState \<Rightarrow> string update \<Rightarrow> AgentState" where
  "apply_update state u =
     (case u of
        NoUpdate \<Rightarrow> state
      | ContextUpdate c \<Rightarrow> state\<lparr>rag_context := Some c\<rparr>
      | MessagesUpdate ms \<Rightarrow> state\<lparr>messages := messages state @ ms\<rparr>)"

text \<open>
  Modelled from the spec: the graph wiring \<open>app/agent/graph.py\<close> is not among the
  sources. By section 4.1 of the spec the states are
  \<open>entry \<rightarrow> route_check \<rightarrow> {retrieve_context | generate_direct} \<rightarrow> end\<close>, with
  \<open>retrieve_context\<close> followed by \<open>generate_with_context\<close>; the return value of the
  routing node selects the edge and is not folded into the state; an exception raised
  in a node ends the traversal.
\<close>

definition run_graph ::
  "vector_store \<Rightarrow> llm_backend \<Rightarrow> AgentState \<Rightarrow> event list \<times> (exn + AgentState)" where
  "run_graph get_retriever invoke state0 =
     (let state = apply_update state0 (agent_entry state0) in
      if check_for_rag state = ''rag_retrieval'' then
        (case retrieve_from_rag get_retriever state of
           (t1, Inl e) \<Rightarrow> (t1, Inl e)
         | (t1, Inr u1) \<Rightarrow>
             (let state1 = apply_update state u1 in
              case generate_with_context invoke state1 of
                (t2, Inl e) \<Rightarrow> (t1 @ t2, Inl e)
              | (t2, Inr u2) \<Rightarrow> (t1 @ t2, Inr (apply_update state1 u2))))
      else
        (case generate_direct invoke state of
           (t, Inl e) \<Rightarrow> (t, Inl e)
         | (t, Inr u) \<Rightarrow> (t, Inr (apply_update state u))))"

fun is_retrieval_event :: "event \<Rightarrow> bool" where
  "is_retrieval_event (GetRetriever sid) = True"
| "is_retrieval_event (RetrieverInvoke sid q) = True"
| "is_retrieval_event (LlmInvoke c ms) = False"
| "is_retrieval_event (SearchInvoke q) = False"

section \<open>Path and number formatting used by the upload endpoint\<close>

text \<open>
  \<open>str.rfind\<close> for a single character: the highest index where it occurs, or \<open>-1\<close>.
\<close>

fun rfind :: "char \<Rightarrow> string \<Rightarrow> int" where
  "rfind c [] = - 1"
| "rfind c (x # xs) =
     (let r = rfind c xs in if 0 \<le> r then r + 1 else if x = c then 0 else - 1)"

text \<open>
  \<open>os.path.splitext\<close> on a POSIX system (separator \<open>/\<close>, no alternative separator,
  extension separator \<open>.\<close>). The loop skips the leading dots of the last path component;
  it answers whether a character other than a dot stands before the last dot.
\<close>

function splitext_loop :: "string \<Rightarrow> nat \<Rightarrow> nat \<Rightarrow> bool" where
  "splitext_loop p filenameIndex dotIndex =
     (if filenameIndex < dotIndex
      then (if take 1 (drop filenameIndex p) \<noteq> ''.'' then True
            else splitext_loop p (filenameIndex + 1) dotIndex)
      else False)"
  by pat_completeness auto
termination
  by (relation "measure (\<lambda>(p, filenameIndex, dotIndex). dotIndex - filenameIndex)") auto

declare splitext_loop.simps [simp del]

definition splitext :: "string \<Rightarrow> string \<times> string" where
  "splitext p =
     (let sepIndex = rfind (CHR ''/'') p;
          dotIndex = rfind (CHR ''.'') p
      in if sepIndex < dotIndex \<and> splitext_loop p (nat (sepIndex + 1)) (nat dotIndex)
         then (take (nat dotIndex) p, drop (nat dotIndex) p)
         else (p, []))"

text \<open>\<open>os.path.join\<close> of two components and \<open>os.path.basename\<close>, on a POSIX system.\<close>

definition path_join :: "string \<Rightarrow> string \<Rightarrow> string" where
  "path_join a b =
     (if startswith b ''/'' then b
      else if a = [] \<or> last a = CHR ''/'' then a @ b
      else a @ ''/'' @ b)"

definition basename :: "string \<Rightarrow> string" where
  "basename p = drop (nat (rfind (CHR ''/'') p + 1)) p"

definition dirname_part :: "string \<Rightarrow> string" where
  "dirname_part p = take (nat (rfind (CHR ''/'') p + 1)) p"

text \<open>
  The text of \<open>str(uuid.uuid4())\<close>: 36 characters, lower-case hexadecimal digits and
  dashes.
\<close>

definition uuid_text :: "string \<Rightarrow> bool" where
  "uuid_text u = (length u = 36 \<and> list_all (\<lambda>c. c \<in> set ''0123456789abcdef-'') u)"

text \<open>Decimal digits of a natural number, \<open>str(n)\<close>.\<close>

fun str_nat :: "nat \<Rightarrow> string" where
  "str_nat n =
     (if n < 10 then [''0123456789'' ! n]
      else str_nat (n div 10) @ [''0123456789'' ! (n mod 10)])"

declare str_nat.simps [simp del]

text \<open>
  \<open>f"{n / (1024*1024):.1f}"\<close> for a byte count \<open>n\<close>. For \<open>n\<close> below \<open>2^53\<close> the
  quotient by \<open>2^20\<close> is exact in binary floating point, and the format rounds its exact
  value to one decimal, ties to the even digit; so the text is computed on integers,
  in tenths of a megabyte.
\<close>

definition format_mb :: "nat \<Rightarrow> string" where
  "format_mb n =
     (let q = (n * 10) div 2 ^ 20;
          r = (n * 10) mod 2 ^ 20;
          tenths = (if 2 ^ 19 < r \<or> (r = 2 ^ 19 \<and> odd q) then q + 1 else q)
      in str_nat (tenths div 10) @ ''.'' @ str_nat (tenths mod 10))"

section \<open>The upload endpoint of \<open>upload.py\<close>\<close>

datatype http_exception = HTTPException nat string

text \<open>What the \<open>try\<close> block raises: an HTTP exception of its own, or any other exception.\<close>

datatype raised = Http http_exception | Other exn

record UploadFile =
  filename :: "string option"
  file_bytes :: string

datatype upload_response = UploadResponse string string nat string

text \<open>
  The calls that the handler makes on the upload stream, on storage and on the two
  services, in the order made.
\<close>

datatype upload_call =
    FileRead
  | FileSeek
  | OpenWrite string
  | CopyFileObj string
  | ParseFile string string
  | AddDocuments "string list" string
  | RemoveFile string
  | FileClose

text \<open>
  The world the handler acts on: the files in storage (path to content), whether the
  upload stream has been closed, and the calls made so far.
\<close>

record world =
  files :: "string \<rightharpoonup> string"
  stream_closed :: bool
  calls :: "upload_call list"

text \<open>
  What the handler does not decide: the UUID drawn, whether \<open>open\<close>,
  \<open>shutil.copyfileobj\<close> or \<open>os.remove\<close> raise, what the parser returns for a stored
  file, and whether the vector store raises. The calls on the upload stream that the
  handler has received (\<open>read\<close>, \<open>seek\<close>, \<open>close\<close>) are taken to succeed, and
  \<open>os.path.exists\<close> raises nothing.
\<close>

record upload_env =
  uuid4 :: string
  open_raises :: "exn option"
  copy_raises :: "exn option"
  parse_file :: "(string \<rightharpoonup> string) \<Rightarrow> string \<Rightarrow> string \<Rightarrow> exn + string list"
  add_documents_to_store :: "string list \<Rightarrow> string \<Rightarrow> exn option"
  remove_raises :: "exn option"

definition UPLOAD_DIR :: string where
  "UPLOAD_DIR = ''temp_uploads''"

definition MAX_FILE_SIZE :: nat where
  "MAX_FILE_SIZE = 50 * 1024 * 1024"

definition too_large_detail :: "nat \<Rightarrow> string" where
  "too_large_detail n =
     ''File too large. Maximum size allowed is 50MB. Your file is '' @ format_mb n @ ''MB.''"

definition log_call :: "upload_call \<Rightarrow> world \<Rightarrow> world" where
  "log_call c w = w\<lparr>calls := calls w @ [c]\<rparr>"

text \<open>The body of the \<open>try\<close> block, with its two inner \<open>except Exception\<close> clauses.\<close>

definition upload_body ::
  "upload_env \<Rightarrow> string \<Rightarrow> string \<Rightarrow> string \<Rightarrow> string \<Rightarrow> string \<Rightarrow> world
     \<Rightarrow> world \<times> (raised + upload_response)" where
  "upload_body env name file_content session file_path file_extension w =
     (case open_raises env of
        Some e \<Rightarrow> (log_call (OpenWrite file_path) w, Inl (Other e))
      | None \<Rightarrow>
          (let w1 = log_call (OpenWrite file_path) (w\<lparr>files := (files w)(file_path \<mapsto> [])\<rparr>) in
           case copy_raises env of
             Some e \<Rightarrow> (log_call (CopyFileObj file_path) w1, Inl (Other e))
           | None \<Rightarrow>
               (let w2 = log_call (CopyFileObj file_path)
                           (w1\<lparr>files := (files w1)(file_path \<mapsto> file_content)\<rparr>);
                    w3 = log_call (ParseFile file_path file_extension) w2
                in case parse_file env (files w2) file_path file_extension of
                     Inl e \<Rightarrow>
                       if is_Exception e then
                         (w3, Inl (Http (HTTPException 400
                            (''Could not parse the file '' @ [CHR 0x27] @ name @ [CHR 0x27]
                             @ ''. The file might be corrupted or in an unsupported format. Error: ''
                             @ str_exn e))))
                       else (w3, Inl (Other e))
                   | Inr document_chunks \<Rightarrow>
                       if document_chunks = [] then
                         (w3, Inl (Http (HTTPException 400
                            (''Could not extract any text content from the file: '' @ name
                             @ ''. The file might be empty or contain only images.''))))
                       else
                         (let w4 = log_call (AddDocuments document_chunks session) w3 in
                          case add_documents_to_store env document_chunks session of
                            Some e \<Rightarrow>
                              if is_Exception e then
                                (w4, Inl (Http (HTTPException 500
                                   (''Failed to create embeddings for the document. ''
                                    @ str_exn e))))
                              else (w4, Inl (Other e))
                          | None \<Rightarrow>
                              (w4, Inr (UploadResponse ''success'' name (length document_chunks)
                                 ''File processed and added to the knowledge base successfully.''))))))"

text \<open>
  The \<open>finally\<close> block: the world it leaves, and the exception of \<open>os.remove\<close> when
  that call raises, after which the stream is not closed.
\<close>

definition upload_cleanup :: "upload_env \<Rightarrow> string \<Rightarrow> world \<Rightarrow> world \<times> exn option" where
  "upload_cleanup env file_path w =
     (if files w file_path \<noteq> None then
        (case remove_raises env of
           Some e \<Rightarrow> (log_call (RemoveFile file_path) w, Some e)
         | None \<Rightarrow>
             (let w1 = log_call (RemoveFile file_path) (w\<lparr>files := (files w)(file_path := None)\<rparr>)
              in (log_call FileClose (w1\<lparr>stream_closed := True\<rparr>), None)))
      else (log_call FileClose (w\<lparr>stream_closed := True\<rparr>), None))"

definition temp_file_path :: "string \<Rightarrow> string \<Rightarrow> string" where
  "temp_file_path uuid name =
     (let file_extension = snd (splitext name);
          unique_filename = uuid @ file_extension
      in path_join UPLOAD_DIR unique_filename)"

text \<open>
  The handler. The two validations raise before the \<open>try\<close>; the outer clauses re-raise
  an HTTP exception and turn any other \<open>Exception\<close> into status 500; an exception that
  is not an \<open>Exception\<close> leaves the handler as it is; the \<open>finally\<close> block runs in
  each of these cases, and an exception raised there replaces the outcome of the
  \<open>try\<close> statement.
\<close>

definition upload_file ::
  "upload_env \<Rightarrow> UploadFile \<Rightarrow> string \<Rightarrow> world \<Rightarrow> world \<times> (raised + upload_response)" where
  "upload_file env file session w =
     (case filename file of
        None \<Rightarrow> (w, Inl (Http (HTTPException 400 ''No file name provided.'')))
      | Some name \<Rightarrow>
          if name = [] then (w, Inl (Http (HTTPException 400 ''No file name provided.'')))
          else
            (let file_content = file_bytes file;
                 w1 = log_call FileRead w
             in if MAX_FILE_SIZE < length file_content
                then (w1, Inl (Http (HTTPException 400 (too_large_detail (length file_content)))))
                else
                  (let w2 = log_call FileSeek w1;
                       file_extension = snd (splitext name);
                       file_path = temp_file_path (uuid4 env) name;
                       (w3, r) = upload_body env name file_content session file_path
                                   file_extension w2;
                       result =
                         (case r of
                            Inr response \<Rightarrow> Inr response
                          | Inl (Http e) \<Rightarrow> Inl (Http e)
                          | Inl (Other e) \<Rightarrow>
                              if is_Exception e then
                                Inl (Http (HTTPException 500
                                  (''An unexpected error occurred while processing the file: ''
                                   @ str_exn e)))
                              else Inl (Other e));
                       (w4, cleanup) = upload_cleanup env file_path w3
                   in (w4, case cleanup of Some e \<Rightarrow> Inl (Other e) | None \<Rightarrow> result))))"

fun is_service_call :: "upload_call \<Rightarrow> bool" where
  "is_service_call (ParseFile path ext) = True"
| "is_service_call (AddDocuments chunks session) = True"
| "is_service_call c = False"

section \<open>Sample requests and backends\<close>

definition hello_state :: AgentState where
  "hello_state =
     chat_inputs \<lparr>cr_session_id = ''s1'', cr_message = ''Hello'', cr_use_rag = False,
                  cr_system_prompt = ''Be brief.''\<rparr>"

definition summarize_state :: AgentState where
  "summarize_state =
     chat_inputs \<lparr>cr_session_id = ''s1'', cr_message = ''Summarize this'', cr_use_rag = True,
                  cr_system_prompt = ''Be brief.''\<rparr>"

definition no_session_state :: AgentState where
  "no_session_state =
     chat_inputs \<lparr>cr_session_id = [], cr_message = ''Summarize this'', cr_use_rag = True,
                  cr_system_prompt = ''Be brief.''\<rparr>"

definition grounded_state :: AgentState where
  "grounded_state = summarize_state\<lparr>rag_context := Some ''A''\<rparr>"


definition empty_history_state :: AgentState where
  "empty_history_state =
     \<lparr>messages = [], session_id = Some ''s1'', use_rag = Some True, system_prompt = None,
      rag_context = None\<rparr>"

definition fixed_reply :: llm_backend where
  "fixed_reply client inputs = Inr \<lparr>msg_type = Some ''ai'', content = ''ok''\<rparr>"

definition two_snippets :: retriever where
  "two_snippets query = Inr [\<lparr>page_content = ''A''\<rparr>, \<lparr>page_content = ''B''\<rparr>]"

definition two_snippet_store :: vector_store where
  "two_snippet_store sid = Inr two_snippets"

definition refusing_retriever :: retriever where
  "refusing_retriever query = Inl (Raised ''connection refused'')"

definition refusing_store :: vector_store where
  "refusing_store sid = Inr refusing_retriever"

definition timeout_search :: "string \<Rightarrow> exn + string" where
  "timeout_search query = Inl (Raised ''timeout'')"

definition interrupted_search :: "string \<Rightarrow> exn + string" where
  "interrupted_search query = Inl (RaisedBase ''interrupted'')"

definition fixed_search :: "string \<Rightarrow> exn + string" where
  "fixed_search query = Inr ''three results''"

definition unreachable_store :: vector_store where
  "unreachable_store sid = Inl (Raised ''no such collection'')"

definition empty_world :: world where
  "empty_world = \<lparr>files = Map.empty, stream_closed = False, calls = []\<rparr>"

definition one_chunk_parser :: "(string \<rightharpoonup> string) \<Rightarrow> string \<Rightarrow> string \<Rightarrow> exn + string list" where
  "one_chunk_parser storage path ext = Inr [''chunk'']"

definition accepting_store :: "string list \<Rightarrow> string \<Rightarrow> exn option" where
  "accepting_store chunks session = None"

definition sample_env :: upload_env where
  "sample_env =
     \<lparr>uuid4 = ''123e4567-e89b-42d3-a456-426614174000'', open_raises = None,
      copy_raises = None, parse_file = one_chunk_parser,
      add_documents_to_store = accepting_store, remove_raises = None\<rparr>"




definition report_upload :: UploadFile where
  "report_upload = \<lparr>filename = Some ''../../etc/report.pdf'', file_bytes = ''%PDF''\<rparr>"

definition oversize_upload :: UploadFile where
  "oversize_upload =
     \<lparr>filename = Some ''big.pdf'', file_bytes = replicate (60 * 1024 * 1024) (CHR ''x'')\<rparr>"

definition nameless_oversize_upload :: UploadFile where
  "nameless_oversize_upload =
     \<lparr>filename = Some [], file_bytes = replicate (60 * 1024 * 1024) (CHR ''x'')\<rparr>"

section \<open>Routing on the \<open>use_rag\<close> flag\<close>

lemma generate_direct_no_retrieval:
  "list_all (\<lambda>ev. \<not> is_retrieval_event ev) (fst (generate_direct invoke state))"
  by (simp add: generate_direct_def Let_def split: sum.splits)

text \<open>
  C1. \<open>check_for_rag\<close> returns \<open>"rag_retrieval"\<close> exactly when the flag \<open>use_rag\<close>
  is present and true, and \<open>"generate_direct"\<close> otherwise. It returns the signal only,
  the state is not among its results; so when the flag is not true the graph runs
  \<open>generate_direct\<close> on the state it was given, and no call of the graph goes to the
  retrieval backend.
\<close>

theorem check_for_rag_routes:
  "(check_for_rag state = ''rag_retrieval'' \<longleftrightarrow> use_rag state = Some True)
   \<and> (check_for_rag state = ''generate_direct'' \<longleftrightarrow> use_rag state \<noteq> Some True)
   \<and> (use_rag state \<noteq> Some True \<longrightarrow>
        fst (run_graph get_retriever invoke state) = fst (generate_direct invoke state)
        \<and> list_all (\<lambda>ev. \<not> is_retrieval_event ev) (fst (run_graph get_retriever invoke state)))"
proof -
  have route: "(check_for_rag state = ''rag_retrieval'' \<longleftrightarrow> use_rag state = Some True)
     \<and> (check_for_rag state = ''generate_direct'' \<longleftrightarrow> use_rag state \<noteq> Some True)"
    by (auto simp: check_for_rag_def split: option.splits)
  have direct: "fst (run_graph get_retriever invoke state) = fst (generate_direct invoke state)"
    if "use_rag state \<noteq> Some True"
  proof -
    from that route have "check_for_rag state \<noteq> ''rag_retrieval''" by simp
    then show ?thesis
      by (simp add: run_graph_def agent_entry_def apply_update_def split: prod.splits sum.splits)
  qed
  from route direct generate_direct_no_retrieval show ?thesis by simp
qed

theorem check_for_rag_routes_witness:
  "use_rag hello_state \<noteq> Some True
   \<and> check_for_rag hello_state = ''generate_direct''
   \<and> fst (run_graph two_snippet_store fixed_reply hello_state)
       = [LlmInvoke llm_gemini [RolePair ''system'' ''Be brief.'', RolePair ''human'' ''Hello'']]
   \<and> list_all (\<lambda>ev. \<not> is_retrieval_event ev)
        (fst (run_graph two_snippet_store fixed_reply hello_state))"
  using check_for_rag_routes [of hello_state two_snippet_store fixed_reply]
  by (simp add: hello_state_def chat_inputs_def HumanMessage_def generate_direct_def
      fixed_reply_def)

section \<open>The retrieval node\<close>

lemma last_message_nonempty:
  "messages state \<noteq> [] \<Longrightarrow> last_message state = Inr (last (messages state))"
  by (cases "messages state") (simp_all add: last_message_def)

lemma last_message_empty: "messages state = [] \<Longrightarrow> last_message state = Inl IndexError"
  by (simp add: last_message_def)

lemma chat_inputs_messages: "messages (chat_inputs request) \<noteq> []"
  by (simp add: chat_inputs_def)

text \<open>
  C2. On a state that holds a message (every request state does, see
  \<open>chat_inputs_messages\<close>): when \<open>session_id\<close> is absent or empty,
  \<open>retrieve_from_rag\<close> makes no backend call and sets \<open>context\<close> to the fixed
  diagnostic text; when it is not empty, the node asks the vector store for the
  retriever of that session and invokes it once, with the text of the last message,
  and the documents it returns give the context, joined by a blank line.
\<close>

theorem retrieve_from_rag_context:
  assumes "messages state \<noteq> []"
  shows "(session_id state = None \<or> session_id state = Some [] \<longrightarrow>
            retrieve_from_rag get_retriever state = ([], Inr (ContextUpdate no_session_text)))
         \<and> (\<forall>sid r. session_id state = Some sid \<and> sid \<noteq> [] \<and> get_retriever sid = Inr r \<longrightarrow>
               fst (retrieve_from_rag get_retriever state)
                 = [GetRetriever sid, RetrieverInvoke sid (content (last (messages state)))]
               \<and> (\<forall>docs. r (content (last (messages state))) = Inr docs \<longrightarrow>
                     snd (retrieve_from_rag get_retriever state)
                       = Inr (ContextUpdate (join ''\<newline>\<newline>'' (map page_content docs)))))"
  using assms
  by (auto simp: retrieve_from_rag_def last_message_nonempty Let_def
      split: sum.splits option.splits)

theorem retrieve_from_rag_context_witness:
  "messages no_session_state \<noteq> [] \<and> session_id no_session_state = Some []
   \<and> retrieve_from_rag two_snippet_store no_session_state
        = ([], Inr (ContextUpdate ''Error: No session ID provided for document retrieval.''))
   \<and> messages summarize_state \<noteq> [] \<and> session_id summarize_state = Some ''s1''
   \<and> two_snippet_store ''s1'' = Inr two_snippets
   \<and> two_snippets ''Summarize this''
        = Inr [\<lparr>page_content = ''A''\<rparr>, \<lparr>page_content = ''B''\<rparr>]
   \<and> fst (retrieve_from_rag two_snippet_store summarize_state)
        = [GetRetriever ''s1'', RetrieverInvoke ''s1'' ''Summarize this'']
   \<and> snd (retrieve_from_rag two_snippet_store summarize_state)
        = Inr (ContextUpdate ''A\<newline>\<newline>B'')"
  using retrieve_from_rag_context [of no_session_state two_snippet_store]
    retrieve_from_rag_context [of summarize_state two_snippet_store]
  by (simp add: no_session_state_def summarize_state_def chat_inputs_def HumanMessage_def
      two_snippet_store_def two_snippets_def no_session_text_def)

section \<open>The context-grounded generation node\<close>



text \<open>
  C4. On the request "Summarize this" with context "A", \<open>generate_with_context\<close>
  makes one call, to the client \<open>llm_gemini\<close>, whose temperature is 0 and not 0.7;
  the client \<open>llm_gemini_rag\<close>, which has temperature 0.7, is not called. The reply
  of the backend is returned as the one new message.
\<close>

theorem generate_with_context_client:
  "fst (generate_with_context fixed_reply grounded_state)
     = [LlmInvoke llm_gemini [RolePair ''user''
          (rag_prompt ''Be brief.'' ''A'' ''Summarize this'')]]
   \<and> temperature llm_gemini = 0
   \<and> temperature llm_gemini \<noteq> 7 / 10
   \<and> temperature llm_gemini_rag = 7 / 10
   \<and> snd (generate_with_context fixed_reply grounded_state)
       = Inr (MessagesUpdate [\<lparr>msg_type = Some ''ai'', content = ''ok''\<rparr>])"
  by (simp add: generate_with_context_def last_message_def grounded_state_def
      summarize_state_def chat_inputs_def HumanMessage_def fixed_reply_def Let_def)

section \<open>The direct generation node\<close>





section \<open>Exceptions in the retrieval and web-search nodes\<close>

text \<open>
  The claim C6 as stated fails: with a retriever that raises, \<open>retrieve_from_rag\<close>
  raises the same exception and returns no context.
\<close>

theorem retrieve_from_rag_raises:
  "snd (retrieve_from_rag refusing_store summarize_state) = Inl (Raised ''connection refused'')"
  by (simp add: retrieve_from_rag_def last_message_def summarize_state_def chat_inputs_def
      HumanMessage_def refusing_store_def refusing_retriever_def Let_def)

lemma run_web_search_no_key:
  assumes "tavily_api_key = None \<or> tavily_api_key = Some []"
  shows "run_web_search tavily_api_key construct_tool state
           = ([], Inr (ContextUpdate (ContextText search_unavailable_text)))"
  using assms by (auto simp: run_web_search_def get_web_search_tool_def)

lemma run_web_search_construction:
  assumes "tavily_api_key = Some k" "k \<noteq> []" "construct_tool = Inl e"
  shows "run_web_search tavily_api_key construct_tool state = ([], Inl e)"
  using assms by (simp add: run_web_search_def get_web_search_tool_def)

lemma run_web_search_no_message:
  assumes "tavily_api_key = Some k" "k \<noteq> []" "construct_tool = Inr tool" "messages state = []"
  shows "run_web_search tavily_api_key construct_tool state
           = ([], Inr (ContextUpdate
                         (ContextText ''Web search failed: list index out of range'')))"
  using assms by (simp add: run_web_search_def get_web_search_tool_def last_message_empty)

lemma run_web_search_invoke:
  assumes "tavily_api_key = Some k" "k \<noteq> []" "construct_tool = Inr tool" "messages state \<noteq> []"
  shows "run_web_search tavily_api_key construct_tool state
           = ([SearchInvoke (content (last (messages state)))],
              (case tool (content (last (messages state))) of
                 Inr r \<Rightarrow> Inr (ContextUpdate (ToolResult r))
               | Inl e \<Rightarrow>
                   if is_Exception e
                   then Inr (ContextUpdate (ContextText (''Web search failed: '' @ str_exn e)))
                   else Inl e))"
  using assms
  by (simp add: run_web_search_def get_web_search_tool_def last_message_nonempty
      split: sum.splits)

lemma retrieve_from_rag_propagates:
  assumes "messages state \<noteq> []" "session_id state = Some sid" "sid \<noteq> []"
  shows "get_retriever sid = Inl e \<Longrightarrow>
           retrieve_from_rag get_retriever state = ([GetRetriever sid], Inl e)"
    and "get_retriever sid = Inr r \<Longrightarrow> r (content (last (messages state))) = Inl e \<Longrightarrow>
           retrieve_from_rag get_retriever state
             = ([GetRetriever sid, RetrieverInvoke sid (content (last (messages state)))], Inl e)"
  using assms by (simp_all add: retrieve_from_rag_def last_message_nonempty Let_def)

text \<open>
  C6, amended. In \<open>run_web_search\<close> every exception derived from \<open>Exception\<close> that
  the search tool raises, and the \<open>IndexError\<close> of reading the last message of an
  empty history, is caught inside the node and becomes the context
  \<open>Web search failed:\<close> followed by the text of the exception; without a search
  credential the context is the fixed text that the search is not available. What
  leaves the node is an exception of the tool that is not derived from \<open>Exception\<close>,
  and an exception raised while the tool is constructed, before the \<open>try\<close>.
  \<open>retrieve_from_rag\<close> has no handler: an exception raised by \<open>get_retriever\<close> or by
  the retriever leaves the node as it is.
\<close>

theorem glue_nodes_exceptions:
  "(tavily_api_key = None \<or> tavily_api_key = Some [] \<longrightarrow>
      run_web_search tavily_api_key construct_tool state
        = ([], Inr (ContextUpdate (ContextText search_unavailable_text))))
   \<and> (\<forall>k e. tavily_api_key = Some k \<and> k \<noteq> [] \<and> construct_tool = Inl e \<longrightarrow>
         run_web_search tavily_api_key construct_tool state = ([], Inl e))
   \<and> (\<forall>k tool. tavily_api_key = Some k \<and> k \<noteq> [] \<and> construct_tool = Inr tool
          \<and> messages state = [] \<longrightarrow>
         run_web_search tavily_api_key construct_tool state
           = ([], Inr (ContextUpdate
                         (ContextText ''Web search failed: list index out of range''))))
   \<and> (\<forall>k tool r. tavily_api_key = Some k \<and> k \<noteq> [] \<and> construct_tool = Inr tool
          \<and> messages state \<noteq> [] \<and> tool (content (last (messages state))) = Inr r \<longrightarrow>
         run_web_search tavily_api_key construct_tool state
           = ([SearchInvoke (content (last (messages state)))],
              Inr (ContextUpdate (ToolResult r))))
   \<and> (\<forall>k tool e. tavily_api_key = Some k \<and> k \<noteq> [] \<and> construct_tool = Inr tool
          \<and> messages state \<noteq> [] \<and> tool (content (last (messages state))) = Inl e
          \<and> is_Exception e \<longrightarrow>
         run_web_search tavily_api_key construct_tool state
           = ([SearchInvoke (content (last (messages state)))],
              Inr (ContextUpdate (ContextText (''Web search failed: '' @ str_exn e)))))
   \<and> (\<forall>k tool e. tavily_api_key = Some k \<and> k \<noteq> [] \<and> construct_tool = Inr tool
          \<and> messages state \<noteq> [] \<and> tool (content (last (messages state))) = Inl e
          \<and> \<not> is_Exception e \<longrightarrow>
         run_web_search tavily_api_key construct_tool state
           = ([SearchInvoke (content (last (messages state)))], Inl e))
   \<and> (\<forall>sid e. messages state \<noteq> [] \<and> session_id state = Some sid \<and> sid \<noteq> []
          \<and> get_retriever sid = Inl e \<longrightarrow>
         retrieve_from_rag get_retriever state = ([GetRetriever sid], Inl e))
   \<and> (\<forall>sid r e. messages state \<noteq> [] \<and> session_id state = Some sid \<and> sid \<noteq> []
          \<and> get_retriever sid = Inr r \<and> r (content (last (messages state))) = Inl e \<longrightarrow>
         retrieve_from_rag get_retriever state
           = ([GetRetriever sid, RetrieverInvoke sid (content (last (messages state)))],
              Inl e))"
proof (intro conjI allI impI)
  assume "tavily_api_key = None \<or> tavily_api_key = Some []"
  then show "run_web_search tavily_api_key construct_tool state
        = ([], Inr (ContextUpdate (ContextText search_unavailable_text)))"
    by (rule run_web_search_no_key)
next
  fix k e
  assume "tavily_api_key = Some k \<and> k \<noteq> [] \<and> construct_tool = Inl e"
  then show "run_web_search tavily_api_key construct_tool state = ([], Inl e)"
    by (simp add: run_web_search_construction)
next
  fix k tool
  assume "tavily_api_key = Some k \<and> k \<noteq> [] \<and> construct_tool = Inr tool
          \<and> messages state = []"
  then show "run_web_search tavily_api_key construct_tool state
           = ([], Inr (ContextUpdate
                         (ContextText ''Web search failed: list index out of range'')))"
    using run_web_search_no_message [of tavily_api_key k construct_tool tool state] by blast
next
  fix k tool r
  assume "tavily_api_key = Some k \<and> k \<noteq> [] \<and> construct_tool = Inr tool
          \<and> messages state \<noteq> [] \<and> tool (content (last (messages state))) = Inr r"
  then show "run_web_search tavily_api_key construct_tool state
           = ([SearchInvoke (content (last (messages state)))],
              Inr (ContextUpdate (ToolResult r)))"
    using run_web_search_invoke [of tavily_api_key k construct_tool tool state] by simp
next
  fix k tool e
  assume "tavily_api_key = Some k \<and> k \<noteq> [] \<and> construct_tool = Inr tool
          \<and> messages state \<noteq> [] \<and> tool (content (last (messages state))) = Inl e
          \<and> is_Exception e"
  then show "run_web_search tavily_api_key construct_tool state
           = ([SearchInvoke (content (last (messages state)))],
              Inr (ContextUpdate (ContextText (''Web search failed: '' @ str_exn e))))"
    using run_web_search_invoke [of tavily_api_key k construct_tool tool state] by simp
next
  fix k tool e
  assume "tavily_api_key = Some k \<and> k \<noteq> [] \<and> construct_tool = Inr tool
          \<and> messages state \<noteq> [] \<and> tool (content (last (messages state))) = Inl e
          \<and> \<not> is_Exception e"
  then show "run_web_search tavily_api_key construct_tool state
           = ([SearchInvoke (content (last (messages state)))], Inl e)"
    using run_web_search_invoke [of tavily_api_key k construct_tool tool state] by simp
next
  fix sid e
  assume "messages state \<noteq> [] \<and> session_id state = Some sid \<and> sid \<noteq> []
          \<and> get_retriever sid = Inl e"
  then show "retrieve_from_rag get_retriever state = ([GetRetriever sid], Inl e)"
    by (simp add: retrieve_from_rag_propagates(1))
next
  fix sid r e
  assume "messages state \<noteq> [] \<and> session_id state = Some sid \<and> sid \<noteq> []
          \<and> get_retriever sid = Inr r \<and> r (content (last (messages state))) = Inl e"
  then show "retrieve_from_rag get_retriever state
           = ([GetRetriever sid, RetrieverInvoke sid (content (last (messages state)))],
              Inl e)"
    by (simp add: retrieve_from_rag_propagates(2))
qed

theorem glue_nodes_exceptions_witness:
  "run_web_search None (Inr timeout_search) summarize_state
     = ([], Inr (ContextUpdate (ContextText
          ''Web search is not available. Please provide a TAVILY_API_KEY in your environment variables.'')))
   \<and> run_web_search (Some ''tvly-key'')
        (Inl (Raised ''invalid settings'') :: exn + (string \<Rightarrow> exn + string)) summarize_state
       = ([], Inl (Raised ''invalid settings''))
   \<and> messages empty_history_state = []
   \<and> run_web_search (Some ''tvly-key'') (Inr timeout_search) empty_history_state
       = ([], Inr (ContextUpdate (ContextText ''Web search failed: list index out of range'')))
   \<and> messages summarize_state \<noteq> []
   \<and> fixed_search (content (last (messages summarize_state))) = Inr ''three results''
   \<and> run_web_search (Some ''tvly-key'') (Inr fixed_search) summarize_state
       = ([SearchInvoke ''Summarize this''], Inr (ContextUpdate (ToolResult ''three results'')))
   \<and> timeout_search (content (last (messages summarize_state))) = Inl (Raised ''timeout'')
   \<and> is_Exception (Raised ''timeout'')
   \<and> run_web_search (Some ''tvly-key'') (Inr timeout_search) summarize_state
       = ([SearchInvoke ''Summarize this''],
          Inr (ContextUpdate (ContextText ''Web search failed: timeout'')))
   \<and> interrupted_search (content (last (messages summarize_state)))
       = Inl (RaisedBase ''interrupted'')
   \<and> \<not> is_Exception (RaisedBase ''interrupted'')
   \<and> run_web_search (Some ''tvly-key'') (Inr interrupted_search) summarize_state
       = ([SearchInvoke ''Summarize this''], Inl (RaisedBase ''interrupted''))
   \<and> session_id summarize_state = Some ''s1''
   \<and> unreachable_store ''s1'' = Inl (Raised ''no such collection'')
   \<and> retrieve_from_rag unreachable_store summarize_state
       = ([GetRetriever ''s1''], Inl (Raised ''no such collection''))
   \<and> refusing_store ''s1'' = Inr refusing_retriever
   \<and> refusing_retriever (content (last (messages summarize_state)))
       = Inl (Raised ''connection refused'')
   \<and> retrieve_from_rag refusing_store summarize_state
       = ([GetRetriever ''s1'', RetrieverInvoke ''s1'' ''Summarize this''],
          Inl (Raised ''connection refused''))"
proof -
  note no_key =
    glue_nodes_exceptions [of None "Inr timeout_search" summarize_state refusing_store,
      THEN conjunct1]
  note broken =
    glue_nodes_exceptions [of "Some ''tvly-key''"
      "Inl (Raised ''invalid settings'') :: exn + (string \<Rightarrow> exn + string)" summarize_state
      refusing_store, THEN conjunct2, THEN conjunct1]
  note empty =
    glue_nodes_exceptions [of "Some ''tvly-key''" "Inr timeout_search" empty_history_state
      refusing_store, THEN conjunct2, THEN conjunct2, THEN conjunct1]
  note found =
    glue_nodes_exceptions [of "Some ''tvly-key''" "Inr fixed_search" summarize_state
      refusing_store, THEN conjunct2, THEN conjunct2, THEN conjunct2, THEN conjunct1]
  note caught =
    glue_nodes_exceptions [of "Some ''tvly-key''" "Inr timeout_search" summarize_state
      refusing_store, THEN conjunct2, THEN conjunct2, THEN conjunct2, THEN conjunct2,
      THEN conjunct1]
  note passed =
    glue_nodes_exceptions [of "Some ''tvly-key''" "Inr interrupted_search" summarize_state
      refusing_store, THEN conjunct2, THEN conjunct2, THEN conjunct2, THEN conjunct2,
      THEN conjunct2, THEN conjunct1]
  note unreachable =
    glue_nodes_exceptions [of None "Inr timeout_search" summarize_state unreachable_store,
      THEN conjunct2, THEN conjunct2, THEN conjunct2, THEN conjunct2, THEN conjunct2,
      THEN conjunct2, THEN conjunct1]
  note refusing =
    glue_nodes_exceptions [of None "Inr timeout_search" summarize_state refusing_store,
      THEN conjunct2, THEN conjunct2, THEN conjunct2, THEN conjunct2, THEN conjunct2,
      THEN conjunct2, THEN conjunct2]
  have msgs: "messages summarize_state \<noteq> []"
    and last: "content (last (messages summarize_state)) = ''Summarize this''"
    and sid: "session_id summarize_state = Some ''s1''"
    by (simp_all add: summarize_state_def chat_inputs_def HumanMessage_def)
  have none: "messages empty_history_state = []"
    by (simp add: empty_history_state_def)
  have w1: "run_web_search None (Inr timeout_search) summarize_state
     = ([], Inr (ContextUpdate (ContextText
          ''Web search is not available. Please provide a TAVILY_API_KEY in your environment variables.'')))"
    using no_key by (simp add: search_unavailable_text_def)
  have w2: "run_web_search (Some ''tvly-key'')
        (Inl (Raised ''invalid settings'') :: exn + (string \<Rightarrow> exn + string)) summarize_state
       = ([], Inl (Raised ''invalid settings''))"
    using broken by simp
  have w3: "run_web_search (Some ''tvly-key'') (Inr timeout_search) empty_history_state
       = ([], Inr (ContextUpdate (ContextText ''Web search failed: list index out of range'')))"
    using empty none by simp
  have t1: "fixed_search (content (last (messages summarize_state))) = Inr ''three results''"
    by (simp add: fixed_search_def)
  have w4: "run_web_search (Some ''tvly-key'') (Inr fixed_search) summarize_state
       = ([SearchInvoke ''Summarize this''], Inr (ContextUpdate (ToolResult ''three results'')))"
    using found msgs t1 by (simp add: last)
  have t2: "timeout_search (content (last (messages summarize_state))) = Inl (Raised ''timeout'')"
    by (simp add: timeout_search_def)
  have w5: "run_web_search (Some ''tvly-key'') (Inr timeout_search) summarize_state
       = ([SearchInvoke ''Summarize this''],
          Inr (ContextUpdate (ContextText ''Web search failed: timeout'')))"
    using caught msgs t2 by (simp add: last)
  have t3: "interrupted_search (content (last (messages summarize_state)))
       = Inl (RaisedBase ''interrupted'')"
    by (simp add: interrupted_search_def)
  have w6: "run_web_search (Some ''tvly-key'') (Inr interrupted_search) summarize_state
       = ([SearchInvoke ''Summarize this''], Inl (RaisedBase ''interrupted''))"
    using passed msgs t3 by (simp add: last)
  have t4: "unreachable_store ''s1'' = Inl (Raised ''no such collection'')"
    by (simp add: unreachable_store_def)
  have w7: "retrieve_from_rag unreachable_store summarize_state
       = ([GetRetriever ''s1''], Inl (Raised ''no such collection''))"
    using unreachable msgs sid t4 by simp
  have t5: "refusing_store ''s1'' = Inr refusing_retriever"
    by (simp add: refusing_store_def)
  have t6: "refusing_retriever (content (last (messages summarize_state)))
       = Inl (Raised ''connection refused'')"
    by (simp add: refusing_retriever_def)
  have w8: "retrieve_from_rag refusing_store summarize_state
       = ([GetRetriever ''s1'', RetrieverInvoke ''s1'' ''Summarize this''],
          Inl (Raised ''connection refused''))"
    using refusing msgs sid t5 t6 by (simp add: last)
  have e1: "is_Exception (Raised ''timeout'')" and e2: "\<not> is_Exception (RaisedBase ''interrupted'')"
    by simp_all
  show ?thesis
    by (intro conjI) (rule w1 w2 none w3 msgs t1 w4 t2 e1 w5 t3 e2 w6 sid t4 w7 t5 t6 w8)+
qed

section \<open>The keyword router\<close>

text \<open>
  C7. On the message "Hello", which holds none of the four keywords,
  \<open>route_to_llm\<close> returns \<open>"ginini"\<close>, which is neither \<open>"gemini"\<close> nor \<open>"groq"\<close>.
\<close>

theorem route_to_llm_default_identifier:
  "route_to_llm hello_state = Inr ''ginini''
   \<and> route_to_llm hello_state \<noteq> Inr ''gemini''
   \<and> route_to_llm hello_state \<noteq> Inr ''groq''"
  by (simp add: route_to_llm_def last_message_def hello_state_def chat_inputs_def
      HumanMessage_def lower_def lower_char_def Let_def)

section \<open>The path of the temporary file\<close>

lemma rfind_notin: "c \<notin> set ys \<Longrightarrow> rfind c ys = - 1"
  by (induction ys) (auto simp: Let_def)

lemma rfind_append_sep: "c \<notin> set ys \<Longrightarrow> rfind c (xs @ c # ys) = int (length xs)"
  by (induction xs) (simp_all add: Let_def rfind_notin)

lemma rfind_lower: "- 1 \<le> rfind c p"
  by (induction p) (simp_all add: Let_def)

lemma rfind_tail: "c \<notin> set (drop (nat (rfind c p + 1)) p)"
proof (induction p)
  case Nil
  then show ?case by simp
next
  case (Cons x xs)
  show ?case
  proof (cases "0 \<le> rfind c xs")
    case True
    then have "nat (rfind c xs + 1 + 1) = Suc (nat (rfind c xs + 1))" by simp
    with True Cons show ?thesis by (simp add: Let_def)
  next
    case False
    with rfind_lower [of c xs] have "rfind c xs = - 1" by simp
    with Cons show ?thesis by (simp add: Let_def)
  qed
qed

lemma splitext_ext_no_sep: "CHR ''/'' \<notin> set (snd (splitext name))"
proof (cases "rfind (CHR ''/'') name < rfind (CHR ''.'') name
    \<and> splitext_loop name (nat (rfind (CHR ''/'') name + 1)) (nat (rfind (CHR ''.'') name))")
  case True
  then have le: "nat (rfind (CHR ''/'') name + 1) \<le> nat (rfind (CHR ''.'') name)"
    by linarith
  have "set (drop (nat (rfind (CHR ''.'') name)) name)
      \<subseteq> set (drop (nat (rfind (CHR ''/'') name + 1)) name)"
    using le by (rule set_drop_subset_set_drop)
  with rfind_tail [of "CHR ''/''" name] True show ?thesis
    by (auto simp: splitext_def Let_def)
next
  case False
  then show ?thesis by (auto simp: splitext_def Let_def)
qed

lemma splitext_parts: "fst (splitext name) @ snd (splitext name) = name"
  by (simp add: splitext_def Let_def)

lemma uuid_text_no_sep: "uuid_text u \<Longrightarrow> CHR ''/'' \<notin> set u"
  by (auto simp: uuid_text_def list_all_iff)

lemma uuid_text_nonempty: "uuid_text u \<Longrightarrow> u \<noteq> []"
  by (auto simp: uuid_text_def)

lemma path_join_upload_dir:
  assumes "b \<noteq> []" "hd b \<noteq> CHR ''/''"
  shows "path_join UPLOAD_DIR b = ''temp_uploads/'' @ b"
proof -
  from assms obtain c cs where "b = c # cs" "c \<noteq> CHR ''/''" by (cases b) auto
  then show ?thesis by (simp add: path_join_def UPLOAD_DIR_def)
qed

lemma temp_file_path_eq:
  assumes "uuid_text u"
  shows "temp_file_path u name = ''temp_uploads/'' @ u @ snd (splitext name)"
proof -
  from assms have ne: "u \<noteq> []" by (rule uuid_text_nonempty)
  from assms have "CHR ''/'' \<notin> set u" by (rule uuid_text_no_sep)
  with ne have "hd u \<noteq> CHR ''/''" by (cases u) auto
  with ne have "hd (u @ snd (splitext name)) \<noteq> CHR ''/''" by simp
  with ne show ?thesis
    by (simp add: temp_file_path_def Let_def path_join_upload_dir)
qed

lemma basename_under_dir:
  assumes "CHR ''/'' \<notin> set b"
  shows "basename (''temp_uploads/'' @ b) = b"
    and "dirname_part (''temp_uploads/'' @ b) = ''temp_uploads/''"
proof -
  have "rfind (CHR ''/'') (''temp_uploads'' @ CHR ''/'' # b) = int (length ''temp_uploads'')"
    using assms by (rule rfind_append_sep)
  then have r: "rfind (CHR ''/'') (''temp_uploads/'' @ b) = 12" by simp
  show "basename (''temp_uploads/'' @ b) = b"
    unfolding basename_def r by simp
  show "dirname_part (''temp_uploads/'' @ b) = ''temp_uploads/''"
    unfolding dirname_part_def r by simp
qed

section \<open>The upload handler\<close>




lemma upload_cleanup_other:
  "p \<noteq> file_path \<Longrightarrow> files (fst (upload_cleanup env file_path w)) p = files w p"
  by (simp add: upload_cleanup_def log_call_def Let_def split: option.splits)

lemma upload_cleanup_calls:
  "\<exists>more. calls (fst (upload_cleanup env file_path w)) = calls w @ more"
  by (simp add: upload_cleanup_def log_call_def Let_def split: option.splits)

lemma upload_body_other:
  "p \<noteq> file_path \<Longrightarrow>
   files (fst (upload_body env name file_content session file_path ext w)) p = files w p"
  by (simp add: upload_body_def log_call_def Let_def split: option.splits sum.splits)

lemma upload_body_calls:
  "\<exists>more. calls (fst (upload_body env name file_content session file_path ext w))
     = calls w @ OpenWrite file_path # more"
  by (simp add: upload_body_def log_call_def Let_def split: option.splits sum.splits)




lemma upload_file_valid:
  assumes "filename file = Some name" "name \<noteq> []" "length (file_bytes file) \<le> MAX_FILE_SIZE"
  shows "fst (upload_file env file session w)
     = fst (upload_cleanup env (temp_file_path (uuid4 env) name)
              (fst (upload_body env name (file_bytes file) session
                      (temp_file_path (uuid4 env) name) (snd (splitext name))
                      (log_call FileSeek (log_call FileRead w)))))"
  using assms by (simp add: upload_file_def Let_def split: prod.splits)


lemma upload_file_calls:
  assumes "filename file = Some name" "name \<noteq> []" "length (file_bytes file) \<le> MAX_FILE_SIZE"
  shows "\<exists>more. calls (fst (upload_file env file session w))
     = calls w @ [FileRead, FileSeek, OpenWrite (temp_file_path (uuid4 env) name)] @ more"
proof -
  let ?p = "temp_file_path (uuid4 env) name"
  let ?w2 = "log_call FileSeek (log_call FileRead w)"
  let ?b = "fst (upload_body env name (file_bytes file) session ?p (snd (splitext name)) ?w2)"
  from upload_body_calls [of env name "file_bytes file" session ?p "snd (splitext name)" ?w2]
  obtain m1 where b: "calls ?b = calls ?w2 @ OpenWrite ?p # m1" by blast
  from upload_cleanup_calls [of env ?p ?b]
  obtain m2 where c: "calls (fst (upload_cleanup env ?p ?b)) = calls ?b @ m2" by blast
  have "calls (fst (upload_file env file session w)) = calls (fst (upload_cleanup env ?p ?b))"
    using assms by (simp add: upload_file_valid)
  with b c have "calls (fst (upload_file env file session w))
      = calls w @ [FileRead, FileSeek, OpenWrite ?p] @ (m1 @ m2)"
    by (simp add: log_call_def)
  then show ?thesis by blast
qed

lemma upload_file_rejected:
  assumes "filename file = None \<or> filename file = Some []"
  shows "upload_file env file session w
           = (w, Inl (Http (HTTPException 400 ''No file name provided.'')))"
  using assms by (auto simp: upload_file_def)

lemma upload_file_too_large:
  assumes "filename file = Some name" "name \<noteq> []" "MAX_FILE_SIZE < length (file_bytes file)"
  shows "upload_file env file session w
           = (w\<lparr>calls := calls w @ [FileRead]\<rparr>,
              Inl (Http (HTTPException 400
                     (''File too large. Maximum size allowed is 50MB. Your file is ''
                      @ format_mb (length (file_bytes file)) @ ''MB.''))))"
  using assms by (simp add: upload_file_def Let_def log_call_def too_large_detail_def)

lemma upload_file_other:
  assumes "filename file = Some name" "p \<noteq> temp_file_path (uuid4 env) name"
  shows "files (fst (upload_file env file session w)) p = files w p"
proof (cases "name \<noteq> [] \<and> length (file_bytes file) \<le> MAX_FILE_SIZE")
  case True
  with assms show ?thesis
    by (simp add: upload_file_valid upload_cleanup_other upload_body_other log_call_def)
next
  case False
  with assms show ?thesis
    by (auto simp: upload_file_def Let_def log_call_def)
qed

lemma format_mb_60: "format_mb 62914560 = ''60.0''"
  by (simp add: format_mb_def str_nat.simps Let_def)

lemma oversize_length: "length (file_bytes oversize_upload) = 62914560"
  by (simp add: oversize_upload_def)

lemma nameless_oversize_length: "length (file_bytes nameless_oversize_upload) = 62914560"
  by (simp add: nameless_oversize_upload_def)

lemma sample_uuid_text: "uuid_text (uuid4 sample_env)"
  by code_simp

lemma report_splitext: "splitext ''../../etc/report.pdf'' = (''../../etc/report'', ''.pdf'')"
  by code_simp

lemma other_splitext: "snd (splitext ''notes.v2.pdf'') = ''.pdf''"
  by code_simp





section \<open>Uploads above the size limit\<close>

text \<open>
  The claim C8 as stated fails: an upload of 60 MB whose file name is empty is
  rejected by the check of the name, and the message does not state the size.
\<close>

theorem nameless_oversize_upload_detail:
  "MAX_FILE_SIZE < length (file_bytes nameless_oversize_upload)
   \<and> snd (upload_file sample_env nameless_oversize_upload ''s1'' empty_world)
       = Inl (Http (HTTPException 400 ''No file name provided.''))"
  by (simp add: upload_file_def nameless_oversize_upload_def MAX_FILE_SIZE_def)

text \<open>
  C8, amended. Every upload above 50 MB is rejected with status 400, storage is left
  as it was, and neither the parser nor the vector store is called. When the upload has
  a file name, the handler has only read the stream and the message states the limit
  and the size in megabytes; when it has none, the handler has done nothing and the
  message is that no file name was provided.
\<close>

theorem oversize_upload_rejected:
  assumes "MAX_FILE_SIZE < length (file_bytes file)"
  shows "(\<exists>d. snd (upload_file env file session w) = Inl (Http (HTTPException 400 d)))
   \<and> files (fst (upload_file env file session w)) = files w
   \<and> list_all (\<lambda>c. \<not> is_service_call c)
        (drop (length (calls w)) (calls (fst (upload_file env file session w))))
   \<and> (\<forall>name. filename file = Some name \<and> name \<noteq> [] \<longrightarrow>
        upload_file env file session w
          = (w\<lparr>calls := calls w @ [FileRead]\<rparr>,
             Inl (Http (HTTPException 400
                    (''File too large. Maximum size allowed is 50MB. Your file is ''
                     @ format_mb (length (file_bytes file)) @ ''MB.'')))))
   \<and> (filename file = None \<or> filename file = Some [] \<longrightarrow>
        upload_file env file session w
          = (w, Inl (Http (HTTPException 400 ''No file name provided.''))))"
proof (cases "filename file = None \<or> filename file = Some []")
  case True
  then have "upload_file env file session w
      = (w, Inl (Http (HTTPException 400 ''No file name provided.'')))"
    by (rule upload_file_rejected)
  with True show ?thesis by auto
next
  case False
  then obtain name where name: "filename file = Some name" "name \<noteq> []" by auto
  from name assms have "upload_file env file session w
      = (w\<lparr>calls := calls w @ [FileRead]\<rparr>,
         Inl (Http (HTTPException 400
                (''File too large. Maximum size allowed is 50MB. Your file is ''
                 @ format_mb (length (file_bytes file)) @ ''MB.''))))"
    by (rule upload_file_too_large)
  with name show ?thesis by simp
qed

theorem oversize_upload_rejected_witness:
  "MAX_FILE_SIZE < length (file_bytes oversize_upload)
   \<and> filename oversize_upload = Some ''big.pdf''
   \<and> upload_file sample_env oversize_upload ''s1'' empty_world
       = (empty_world\<lparr>calls := [FileRead]\<rparr>,
          Inl (Http (HTTPException 400
                 ''File too large. Maximum size allowed is 50MB. Your file is 60.0MB.'')))
   \<and> MAX_FILE_SIZE < length (file_bytes nameless_oversize_upload)
   \<and> filename nameless_oversize_upload = Some []
   \<and> upload_file sample_env nameless_oversize_upload ''s1'' empty_world
       = (empty_world, Inl (Http (HTTPException 400 ''No file name provided.'')))"
proof -
  have big: "MAX_FILE_SIZE < length (file_bytes oversize_upload)"
    by (simp add: oversize_length MAX_FILE_SIZE_def)
  have big': "MAX_FILE_SIZE < length (file_bytes nameless_oversize_upload)"
    by (simp add: nameless_oversize_length MAX_FILE_SIZE_def)
  have name: "filename oversize_upload = Some ''big.pdf''"
    by (simp add: oversize_upload_def)
  have name': "filename nameless_oversize_upload = Some []"
    by (simp add: nameless_oversize_upload_def)
  note named = oversize_upload_rejected [OF big, where env = sample_env
      and session = "''s1''" and w = empty_world,
      THEN conjunct2, THEN conjunct2, THEN conjunct2, THEN conjunct1]
  note nameless = oversize_upload_rejected [OF big', where env = sample_env
      and session = "''s1''" and w = empty_world,
      THEN conjunct2, THEN conjunct2, THEN conjunct2, THEN conjunct2]
  have r1: "upload_file sample_env oversize_upload ''s1'' empty_world
       = (empty_world\<lparr>calls := [FileRead]\<rparr>,
          Inl (Http (HTTPException 400
                 ''File too large. Maximum size allowed is 50MB. Your file is 60.0MB.'')))"
    using named name by (simp add: oversize_length format_mb_60 empty_world_def)
  have r2: "upload_file sample_env nameless_oversize_upload ''s1'' empty_world
       = (empty_world, Inl (Http (HTTPException 400 ''No file name provided.'')))"
    using nameless name' by simp
  show ?thesis
    by (intro conjI) (rule big name r1 big' name' r2)+
qed

section \<open>Cleaning up after an upload\<close>




section \<open>Where the temporary file is written\<close>

text \<open>
  C10. With the text of a UUID drawn for the upload, the path of the temporary file
  is the directory \<open>temp_uploads\<close>, a slash, the UUID and the extension that
  \<open>os.path.splitext\<close> gives for the client's file name. The extension is the end of
  that name and holds no slash, so the path has one component below the directory,
  and two names with the same extension give the same path. The handler opens that
  path for writing, and no other path of storage is changed by the request.
\<close>

theorem temp_file_path_shape:
  assumes "uuid_text (uuid4 env)"
  shows "temp_file_path (uuid4 env) name = UPLOAD_DIR @ ''/'' @ uuid4 env @ snd (splitext name)
   \<and> dirname_part (temp_file_path (uuid4 env) name) = UPLOAD_DIR @ ''/''
   \<and> basename (temp_file_path (uuid4 env) name) = uuid4 env @ snd (splitext name)
   \<and> CHR ''/'' \<notin> set (uuid4 env @ snd (splitext name))
   \<and> fst (splitext name) @ snd (splitext name) = name
   \<and> (\<forall>other. snd (splitext other) = snd (splitext name) \<longrightarrow>
         temp_file_path (uuid4 env) other = temp_file_path (uuid4 env) name)
   \<and> (\<forall>file session w.
         filename file = Some name \<and> name \<noteq> [] \<and> length (file_bytes file) \<le> MAX_FILE_SIZE \<longrightarrow>
         (\<exists>more. calls (fst (upload_file env file session w))
            = calls w @ [FileRead, FileSeek, OpenWrite (temp_file_path (uuid4 env) name)] @ more))
   \<and> (\<forall>file session w p.
         filename file = Some name \<and> p \<noteq> temp_file_path (uuid4 env) name \<longrightarrow>
         files (fst (upload_file env file session w)) p = files w p)"
proof -
  have nosep: "CHR ''/'' \<notin> set (uuid4 env @ snd (splitext name))"
    using uuid_text_no_sep [OF assms] splitext_ext_no_sep [of name] by simp
  have path0: "temp_file_path (uuid4 env) name = ''temp_uploads/'' @ uuid4 env @ snd (splitext name)"
    using assms by (rule temp_file_path_eq)
  have path: "temp_file_path (uuid4 env) name = UPLOAD_DIR @ ''/'' @ uuid4 env @ snd (splitext name)"
    unfolding path0 by (simp add: UPLOAD_DIR_def)
  have dir: "dirname_part (temp_file_path (uuid4 env) name) = UPLOAD_DIR @ ''/''"
    unfolding path0 using basename_under_dir(2) [OF nosep] by (simp add: UPLOAD_DIR_def)
  have base: "basename (temp_file_path (uuid4 env) name) = uuid4 env @ snd (splitext name)"
    unfolding path0 using basename_under_dir(1) [OF nosep] by simp
  have parts: "fst (splitext name) @ snd (splitext name) = name"
    by (rule splitext_parts)
  have same: "\<forall>other. snd (splitext other) = snd (splitext name) \<longrightarrow>
         temp_file_path (uuid4 env) other = temp_file_path (uuid4 env) name"
    by (simp add: temp_file_path_def Let_def)
  have written: "\<forall>file session w.
         filename file = Some name \<and> name \<noteq> [] \<and> length (file_bytes file) \<le> MAX_FILE_SIZE \<longrightarrow>
         (\<exists>more. calls (fst (upload_file env file session w))
            = calls w @ [FileRead, FileSeek, OpenWrite (temp_file_path (uuid4 env) name)] @ more)"
    using upload_file_calls [where name = name and env = env] by blast
  have others: "\<forall>file session w p.
         filename file = Some name \<and> p \<noteq> temp_file_path (uuid4 env) name \<longrightarrow>
         files (fst (upload_file env file session w)) p = files w p"
    using upload_file_other [where name = name and env = env] by blast
  show ?thesis
    by (intro conjI) (rule path dir base nosep parts same written others)+
qed

theorem temp_file_path_shape_witness:
  "uuid_text (uuid4 sample_env)
   \<and> temp_file_path (uuid4 sample_env) ''../../etc/report.pdf''
       = ''temp_uploads/123e4567-e89b-42d3-a456-426614174000.pdf''
   \<and> basename (temp_file_path (uuid4 sample_env) ''../../etc/report.pdf'')
       = ''123e4567-e89b-42d3-a456-426614174000.pdf''
   \<and> snd (splitext ''notes.v2.pdf'') = snd (splitext ''../../etc/report.pdf'')
   \<and> temp_file_path (uuid4 sample_env) ''notes.v2.pdf''
       = temp_file_path (uuid4 sample_env) ''../../etc/report.pdf''
   \<and> filename report_upload = Some ''../../etc/report.pdf''
   \<and> length (file_bytes report_upload) \<le> MAX_FILE_SIZE
   \<and> (\<exists>more. calls (fst (upload_file sample_env report_upload ''s1'' empty_world))
         = [FileRead, FileSeek,
            OpenWrite ''temp_uploads/123e4567-e89b-42d3-a456-426614174000.pdf''] @ more)
   \<and> ''/etc/report.pdf'' \<noteq> temp_file_path (uuid4 sample_env) ''../../etc/report.pdf''
   \<and> files (fst (upload_file sample_env report_upload ''s1'' empty_world)) ''/etc/report.pdf''
       = None"
proof -
  note shape = temp_file_path_shape [OF sample_uuid_text, of "''../../etc/report.pdf''"]
  note c1 = shape [THEN conjunct1]
  note c3 = shape [THEN conjunct2, THEN conjunct2, THEN conjunct1]
  note c6 = shape [THEN conjunct2, THEN conjunct2, THEN conjunct2, THEN conjunct2,
      THEN conjunct2, THEN conjunct1]
  note c7 = shape [THEN conjunct2, THEN conjunct2, THEN conjunct2, THEN conjunct2,
      THEN conjunct2, THEN conjunct2, THEN conjunct1]
  note c8 = shape [THEN conjunct2, THEN conjunct2, THEN conjunct2, THEN conjunct2,
      THEN conjunct2, THEN conjunct2, THEN conjunct2]
  have uuid: "uuid4 sample_env = ''123e4567-e89b-42d3-a456-426614174000''"
    by (simp add: sample_env_def)
  have ext: "snd (splitext ''../../etc/report.pdf'') = ''.pdf''"
    by (simp add: report_splitext)
  have same: "snd (splitext ''notes.v2.pdf'') = snd (splitext ''../../etc/report.pdf'')"
    by (simp add: report_splitext other_splitext)
  have name: "filename report_upload = Some ''../../etc/report.pdf''"
    by (simp add: report_upload_def)
  have size: "length (file_bytes report_upload) \<le> MAX_FILE_SIZE"
    by (simp add: report_upload_def MAX_FILE_SIZE_def)
  have path: "temp_file_path (uuid4 sample_env) ''../../etc/report.pdf''
       = ''temp_uploads/123e4567-e89b-42d3-a456-426614174000.pdf''"
    unfolding c1 by (simp add: ext uuid UPLOAD_DIR_def)
  have base: "basename (temp_file_path (uuid4 sample_env) ''../../etc/report.pdf'')
       = ''123e4567-e89b-42d3-a456-426614174000.pdf''"
    unfolding c3 by (simp add: ext uuid)
  have other: "temp_file_path (uuid4 sample_env) ''notes.v2.pdf''
       = temp_file_path (uuid4 sample_env) ''../../etc/report.pdf''"
    using c6 [THEN spec, of "''notes.v2.pdf''"] same by (rule mp)
  have valid: "filename report_upload = Some ''../../etc/report.pdf''
       \<and> ''../../etc/report.pdf'' \<noteq> [] \<and> length (file_bytes report_upload) \<le> MAX_FILE_SIZE"
    using name size by simp
  have calls0: "\<exists>more. calls (fst (upload_file sample_env report_upload ''s1'' empty_world))
         = calls empty_world @ [FileRead, FileSeek,
            OpenWrite (temp_file_path (uuid4 sample_env) ''../../etc/report.pdf'')] @ more"
    using c7 [THEN spec, THEN spec, THEN spec] valid by (rule mp)
  have ew: "calls empty_world = []" by (simp add: empty_world_def)
  have calls: "\<exists>more. calls (fst (upload_file sample_env report_upload ''s1'' empty_world))
         = [FileRead, FileSeek,
            OpenWrite ''temp_uploads/123e4567-e89b-42d3-a456-426614174000.pdf''] @ more"
    using calls0 unfolding ew path by simp
  have neq: "''/etc/report.pdf'' \<noteq> temp_file_path (uuid4 sample_env) ''../../etc/report.pdf''"
    unfolding path by simp
  have "filename report_upload = Some ''../../etc/report.pdf''
       \<and> ''/etc/report.pdf'' \<noteq> temp_file_path (uuid4 sample_env) ''../../etc/report.pdf''"
    using name neq by simp
  with c8 [THEN spec, THEN spec, THEN spec, THEN spec]
  have "files (fst (upload_file sample_env report_upload ''s1'' empty_world)) ''/etc/report.pdf''
       = files empty_world ''/etc/report.pdf''"
    by (rule mp)
  then have untouched:
    "files (fst (upload_file sample_env report_upload ''s1'' empty_world)) ''/etc/report.pdf''
       = None"
    by (simp add: empty_world_def)
  show ?thesis
    by (intro conjI) (rule sample_uuid_text path base same other name size calls neq untouched)+
qed

end
